theory Spec2Isabelle
  imports Complex_Main "HOL-Library.Multiset"
begin

section \<open>Python values and errors\<close>

text \<open>
  Exceptions of the Python source are values: a function of the model returns
  \<open>Inl e\<close> where the source raises \<open>e\<close>, and \<open>Inr v\<close> where it returns \<open>v\<close>.
\<close>

datatype py_error = IndexError | NameError | ValueError

text \<open>
  The slice \<^verbatim>\<open>xs[:batch]\<close>: a non-negative bound keeps that many leading elements, a
  negative bound drops that many trailing ones.
\<close>

definition py_prefix :: "int \<Rightarrow> 'a list \<Rightarrow> 'a list" where
  "py_prefix batch xs =
     (if 0 \<le> batch then take (nat batch) xs
      else take (length xs - nat (- batch)) xs)"

text \<open>
  Indexing an array by an array of integer positions, \<^verbatim>\<open>xs[idx]\<close>: a position
  outside the array raises IndexError.
\<close>

definition take_rows :: "'a list \<Rightarrow> nat list \<Rightarrow> py_error + 'a list" where
  "take_rows xs idx =
     (if list_all (\<lambda>i. i < length xs) idx then Inr (map (\<lambda>i. xs ! i) idx)
      else Inl IndexError)"

text \<open>Indexing an array by a boolean array of the same length, \<^verbatim>\<open>xs[flag]\<close>.\<close>

definition mask :: "'a list \<Rightarrow> bool list \<Rightarrow> 'a list" where
  "mask xs flag = map fst (filter snd (zip xs flag))"

section \<open>query\_strategies.py\<close>

text \<open>
  \<^verbatim>\<open>class_prob[:, 1]\<close>: the second column of the probability matrix, one row per
  pool member. A row with fewer than two entries raises IndexError. Probabilities are
  modelled as real numbers.
\<close>

definition column1 :: "real list list \<Rightarrow> py_error + real list" where
  "column1 class_prob =
     (if list_all (\<lambda>row. 1 < length row) class_prob
      then Inr (map (\<lambda>row. row ! 1) class_prob)
      else Inl IndexError)"

text \<open>
  \<^verbatim>\<open>dist.argsort()\<close> is numpy's; the source passes no \<^verbatim>\<open>kind\<close>, so it is the
  default sort, which numpy documents as returning the indices that sort the array
  and as not stable. The model takes it as a parameter \<open>argsort\<close>, and
  \<open>is_argsort\<close> is that documented contract.
\<close>

definition is_argsort :: "(real list \<Rightarrow> nat list) \<Rightarrow> bool" where
  "is_argsort argsort \<longleftrightarrow>
     (\<forall>xs. mset (argsort xs) = mset [0..<length xs] \<and>
           sorted (map (\<lambda>i. xs ! i) (argsort xs)))"

text \<open>
  \<^verbatim>\<open>uncertainty_sampling(class_prob, test_ids, queryable_ids, batch, screen)\<close>.
  The list \<^verbatim>\<open>flag\<close> is turned into an array by \<^verbatim>\<open>np.array(flag)\<close>: an empty list
  gives an empty array of floats, and indexing \<^verbatim>\<open>order\<close> by an array of floats raises
  IndexError. With \<^verbatim>\<open>screen\<close> set, the report reads \<^verbatim>\<open>final_order[0]\<close>, which raises
  IndexError on an empty \<^verbatim>\<open>final_order\<close>; the other lines of the report only print.
\<close>

definition uncertainty_sampling ::
  "(real list \<Rightarrow> nat list) \<Rightarrow> real list list \<Rightarrow> int list \<Rightarrow> int list \<Rightarrow> int \<Rightarrow> bool
     \<Rightarrow> py_error + nat list" where
  "uncertainty_sampling argsort class_prob test_ids queryable_ids batch screen =
     (case column1 class_prob of
        Inl e \<Rightarrow> Inl e
      | Inr col \<Rightarrow>
          let dist = map (\<lambda>p. \<bar>p - 0.5\<bar>) col;
              order = argsort dist
          in (case take_rows test_ids order of
                Inl e \<Rightarrow> Inl e
              | Inr ids \<Rightarrow>
                  let flag = map (\<lambda>i. i \<in> set queryable_ids) ids
                  in if flag = [] then Inl IndexError
                     else let final_order = mask order flag
                          in if screen \<and> final_order = [] then Inl IndexError
                             else Inr (py_prefix batch final_order)))"

text \<open>
  A sort that meets the contract, for the concrete runs: \<open>argsort_stable\<close> sorts the
  row indices by value and keeps rows of equal value in row order.
\<close>

definition argsort_stable :: "real list \<Rightarrow> nat list" where
  "argsort_stable xs = sort_key (\<lambda>i. xs ! i) [0..<length xs]"

text \<open>
  \<^verbatim>\<open>random_sampling(test_ids, queryable_ids, batch, seed, screen)\<close>. The parameter
  \<open>randint seed n\<close> stands for \<^verbatim>\<open>np.random.seed(seed)\<close> followed by
  \<^verbatim>\<open>np.random.randint(low=0, high=n, size=n)\<close>, errors included. The next statement
  reads \<^verbatim>\<open>test_ids[order]\<close>: the name \<^verbatim>\<open>order\<close> is bound neither in the function nor
  in the module, so evaluating it raises NameError, and the filter and the slice
  after it are never reached.
\<close>

definition random_sampling ::
  "(int \<Rightarrow> nat \<Rightarrow> py_error + nat list) \<Rightarrow> int list \<Rightarrow> int list \<Rightarrow> int \<Rightarrow> int \<Rightarrow> bool
     \<Rightarrow> py_error + nat list" where
  "random_sampling randint test_ids queryable_ids batch seed screen =
     (case randint seed (length test_ids) of
        Inl e \<Rightarrow> Inl e
      | Inr indx \<Rightarrow> Inl NameError)"

section \<open>fit\_lightcurves.py\<close>

text \<open>
  A numpy float is a finite number, NaN or an infinity. A slot of the feature list
  holds such a float or the string \<^verbatim>\<open>'None'\<close>.
\<close>

datatype fval = Finite real | NaN | PosInf | NegInf

datatype feature = Num fval | NoneStr

text \<open>One row of the photometry table, and the light curve object.\<close>

record phot_row =
  mjd :: real
  band :: string
  flux :: real
  fluxerr :: real
  SNR :: real

record LightCurve =
  bazin_features :: "feature list"
  dataset_name :: string
  filters :: "string list"
  id_lc :: int
  photometry :: "phot_row list"
  redshift :: fval
  sample :: string
  sim_peakmag :: "fval list"
  sncode :: string
  sntype :: string

text \<open>
  \<^verbatim>\<open>fit_scipy\<close> is imported from the module \<^verbatim>\<open>bazin\<close>, which is not among the source
  files: the model takes it as a parameter \<open>fit_scipy\<close>, from the shifted times and the
  fluxes of one band to the fitted parameters or an exception. \<open>fitter_ok\<close> is the
  contract the specification gives it: it returns, and it returns five values.
\<close>

type_synonym fitter = "real list \<Rightarrow> real list \<Rightarrow> py_error + fval list"

definition fitter_ok :: "fitter \<Rightarrow> bool" where
  "fitter_ok fit_scipy \<longleftrightarrow>
     (\<forall>time fl. \<exists>ps. fit_scipy time fl = Inr ps \<and> length ps = 5)"

text \<open>
  \<^verbatim>\<open>fit_bazin(band)\<close>: the times and fluxes of the rows of the band, the times less
  the first of them. \<^verbatim>\<open>time[0]\<close> raises IndexError when no row matches.
\<close>

definition fit_bazin :: "fitter \<Rightarrow> LightCurve \<Rightarrow> string \<Rightarrow> py_error + fval list" where
  "fit_bazin fit_scipy lc b =
     (let rows = filter (\<lambda>r. band r = b) (photometry lc);
          time = map mjd rows;
          fl = map flux rows
      in case time of
           [] \<Rightarrow> Inl IndexError
         | t0 # _ \<Rightarrow> fit_scipy (map (\<lambda>t. t - t0) time) fl)"

text \<open>
  The loop of \<^verbatim>\<open>fit_bazin_all\<close> over the filters, the feature list built so far as
  the accumulator. \<^verbatim>\<open>str(item) == 'nan'\<close> holds of NaN only.
\<close>

fun fit_bazin_loop ::
  "fitter \<Rightarrow> LightCurve \<Rightarrow> string list \<Rightarrow> feature list \<Rightarrow> py_error + feature list" where
  "fit_bazin_loop fit_scipy lc [] feats = Inr feats"
| "fit_bazin_loop fit_scipy lc (b # bs) feats =
     (if 4 < length (filter (\<lambda>r. band r = b) (photometry lc)) then
        (case fit_bazin fit_scipy lc b of
           Inl e \<Rightarrow> Inl e
         | Inr best_fit \<Rightarrow>
             if length (filter (\<lambda>item. item = NaN) best_fit) = 0
             then fit_bazin_loop fit_scipy lc bs (feats @ map Num best_fit)
             else fit_bazin_loop fit_scipy lc bs (feats @ replicate 5 NoneStr))
      else fit_bazin_loop fit_scipy lc bs (feats @ replicate 5 NoneStr))"

definition fit_bazin_all :: "fitter \<Rightarrow> LightCurve \<Rightarrow> py_error + LightCurve" where
  "fit_bazin_all fit_scipy lc =
     (case fit_bazin_loop fit_scipy lc (filters lc) [] of
        Inl e \<Rightarrow> Inl e
      | Inr feats \<Rightarrow> Inr (lc\<lparr>bazin_features := feats\<rparr>))"

text \<open>The two membership lists of \<^verbatim>\<open>load_snpcc_lc\<close> and the label they give a code.\<close>

definition snii :: "string list" where
  "snii = [''2'', ''3'', ''4'', ''12'', ''15'', ''17'', ''19'', ''20'', ''21'', ''24'',
           ''25'', ''26'', ''27'', ''30'', ''31'', ''32'', ''33'', ''34'', ''35'', ''36'',
           ''37'', ''38'', ''39'', ''40'', ''41'', ''42'', ''43'', ''44'']"

definition snibc :: "string list" where
  "snibc = [''1'', ''5'', ''6'', ''7'', ''8'', ''9'', ''10'', ''11'', ''13'', ''14'',
            ''16'', ''18'', ''22'', ''23'', ''29'', ''45'', ''28'']"

definition sntype_of :: "string \<Rightarrow> py_error + string" where
  "sntype_of code =
     (if code \<in> set snibc then Inr ''Ibc''
      else if code \<in> set snii then Inr ''II''
      else if code = ''0'' then Inr ''Ia''
      else Inl ValueError)"

text \<open>
  One pass of the header loop of \<^verbatim>\<open>load_snpcc_lc\<close> over a line already split into
  words. The state is the object, the rows of \<^verbatim>\<open>photometry_raw\<close> and \<^verbatim>\<open>header\<close>.
  Python's \<^verbatim>\<open>int\<close> and \<^verbatim>\<open>float\<close> on a word are the parameters \<open>py_int\<close> and
  \<open>py_float\<close>; they raise ValueError on a word they cannot read.
\<close>

type_synonym load_state = "LightCurve \<times> string list list \<times> string list"

fun header_line ::
  "(string \<Rightarrow> int option) \<Rightarrow> (string \<Rightarrow> fval option) \<Rightarrow> load_state \<Rightarrow> string list
     \<Rightarrow> py_error + load_state" where
  "header_line py_int py_float (lc, raw, hdr) [] = Inl IndexError"
| "header_line py_int py_float (lc, raw, hdr) (key # args) =
     (if key = ''SNID:'' then
        (case args of
           [] \<Rightarrow> Inl IndexError
         | a # _ \<Rightarrow>
             (case py_int a of
                None \<Rightarrow> Inl ValueError
              | Some n \<Rightarrow> Inr (lc\<lparr>id_lc := n\<rparr>, raw, hdr)))
      else if key = ''SNTYPE:'' then
        (case args of
           [] \<Rightarrow> Inl IndexError
         | a # _ \<Rightarrow>
             Inr (lc\<lparr>sample := (if a = ''-9'' then ''test'' else ''train'')\<rparr>, raw, hdr))
      else if key = ''SIM_REDSHIFT:'' then
        (case args of
           [] \<Rightarrow> Inl IndexError
         | a # _ \<Rightarrow>
             (case py_float a of
                None \<Rightarrow> Inl ValueError
              | Some z \<Rightarrow> Inr (lc\<lparr>redshift := z\<rparr>, raw, hdr)))
      else if key = ''SIM_NON1a:'' then
        (case args of
           [] \<Rightarrow> Inl IndexError
         | a # _ \<Rightarrow>
             (case sntype_of a of
                Inl e \<Rightarrow> Inl e
              | Inr t \<Rightarrow> Inr (lc\<lparr>sncode := a, sntype := t\<rparr>, raw, hdr)))
      else if key = ''VARLIST:'' then Inr (lc, raw, args)
      else if key = ''OBS:'' then Inr (lc, raw @ [args], hdr)
      else if key = ''SIM_PEAKMAG:'' then
        (case those (map py_float (take 4 args)) of
           None \<Rightarrow> Inl ValueError
         | Some ms \<Rightarrow> Inr (lc\<lparr>sim_peakmag := ms\<rparr>, raw, hdr))
      else Inr (lc, raw, hdr))"

fun header_loop ::
  "(string \<Rightarrow> int option) \<Rightarrow> (string \<Rightarrow> fval option) \<Rightarrow> load_state \<Rightarrow> string list list
     \<Rightarrow> py_error + load_state" where
  "header_loop py_int py_float st [] = Inr st"
| "header_loop py_int py_float st (line # rest) =
     (case header_line py_int py_float st line of
        Inl e \<Rightarrow> Inl e
      | Inr st' \<Rightarrow> header_loop py_int py_float st' rest)"

text \<open>
  \<^verbatim>\<open>load_snpcc_lc\<close> up to the end of the header loop, from the lines of the file
  split into words (\<open>data_all\<close>): the data set name and the filters are set, the lines
  of more than one word are kept, and the loop runs over them. Reading the file and
  filling the photometry table from \<^verbatim>\<open>photometry_raw\<close> after the loop are outside
  the model.
\<close>

definition load_snpcc_lc ::
  "(string \<Rightarrow> int option) \<Rightarrow> (string \<Rightarrow> fval option) \<Rightarrow> LightCurve \<Rightarrow> string list list
     \<Rightarrow> py_error + load_state" where
  "load_snpcc_lc py_int py_float lc data_all =
     header_loop py_int py_float
       (lc\<lparr>dataset_name := ''SNPCC'', filters := [''g'', ''r'', ''i'', ''z'']\<rparr>, [], [])
       (filter (\<lambda>line. 1 < length line) data_all)"

text \<open>
  What one pass of the loop of \<^verbatim>\<open>fit_bazin_all\<close> appends for a band; the loop is
  shown below to append exactly this (\<open>fit_bazin_loop_Cons\<close>).
\<close>

definition band_slots :: "fitter \<Rightarrow> LightCurve \<Rightarrow> string \<Rightarrow> py_error + feature list" where
  "band_slots fit_scipy lc b =
     (if 4 < length (filter (\<lambda>r. band r = b) (photometry lc)) then
        (case fit_bazin fit_scipy lc b of
           Inl e \<Rightarrow> Inl e
         | Inr best_fit \<Rightarrow>
             if length (filter (\<lambda>item. item = NaN) best_fit) = 0
             then Inr (map Num best_fit)
             else Inr (replicate 5 NoneStr))
      else Inr (replicate 5 NoneStr))"

section \<open>Concrete inputs\<close>

text \<open>
  A light curve with five rows in band g, not in time order, and two rows in band r;
  a fitter that returns fixed values, and one that returns the times it was given.
\<close>

definition obs :: "real \<Rightarrow> string \<Rightarrow> real \<Rightarrow> phot_row" where
  "obs t b f = \<lparr>mjd = t, band = b, flux = f, fluxerr = 1, SNR = f\<rparr>"

definition lc_example :: LightCurve where
  "lc_example =
     \<lparr>bazin_features = [], dataset_name = ''SNPCC'', filters = [''g'', ''r''], id_lc = 7,
      photometry =
        [obs 5 ''g'' 10, obs 1 ''r'' 11, obs 3 ''g'' 12, obs 4 ''g'' 13, obs 2 ''r'' 14,
         obs 6 ''g'' 15, obs 7 ''g'' 16],
      redshift = Finite 0.5, sample = ''train'', sim_peakmag = [], sncode = ''0'',
      sntype = ''Ia''\<rparr>"

definition fit_const :: "fval list \<Rightarrow> fitter" where
  "fit_const ps = (\<lambda>time fl. Inr ps)"

definition fit_echo :: fitter where
  "fit_echo = (\<lambda>time fl. Inr (map Finite time))"

definition pool_example :: "real list list" where
  "pool_example = [[0.9, 0.1], [0.5, 0.5], [0.6, 0.4], [0.95, 0.05]]"

section \<open>Properties of the query strategies\<close>

subsection \<open>Slices, masks and sorts\<close>

lemma py_prefix_Nil: "py_prefix batch [] = []"
  by (simp add: py_prefix_def)

lemma py_prefix_zero: "py_prefix 0 xs = []"
  by (simp add: py_prefix_def)

lemma mask_map: "mask xs (map P xs) = filter P xs"
  by (induction xs) (simp_all add: mask_def)

lemma is_argsort_stable: "is_argsort argsort_stable"
  unfolding is_argsort_def argsort_stable_def by simp

lemma is_argsort_set:
  assumes "is_argsort argsort"
  shows "set (argsort xs) = {0..<length xs}"
proof -
  have "mset (argsort xs) = mset [0..<length xs]"
    using assms by (simp add: is_argsort_def)
  then have "set (argsort xs) = set [0..<length xs]"
    by (rule mset_eq_setD)
  then show ?thesis by simp
qed

lemma is_argsort_length:
  assumes "is_argsort argsort"
  shows "length (argsort xs) = length xs"
proof -
  have "mset (argsort xs) = mset [0..<length xs]"
    using assms by (simp add: is_argsort_def)
  then have "length (argsort xs) = length [0..<length xs]"
    by (rule mset_eq_length)
  then show ?thesis by simp
qed

text \<open>On distinct values the contract leaves one answer only.\<close>

lemma is_argsort_distinct_unique:
  assumes "is_argsort argsort" and "distinct xs"
  shows "argsort xs = argsort_stable xs"
proof -
  have m: "mset [0..<length xs] = mset (argsort xs)"
    and s: "sorted (map (\<lambda>i. xs ! i) (argsort xs))"
    using assms(1) by (simp_all add: is_argsort_def)
  have "inj_on (\<lambda>i. xs ! i) (set [0..<length xs])"
    using assms(2) by (auto simp: inj_on_def nth_eq_iff_index_eq)
  from sort_key_inj_key_eq [OF m this s] show ?thesis
    by (simp add: argsort_stable_def)
qed

lemma take_rows_argsort:
  assumes "is_argsort argsort" and "length xs \<le> length ts"
  shows "take_rows ts (argsort xs) = Inr (map (\<lambda>i. ts ! i) (argsort xs))"
  using is_argsort_set [OF assms(1), of xs] assms(2)
  by (auto simp: take_rows_def list_all_iff)

subsection \<open>uncertainty\_sampling\<close>

lemma uncertainty_sampling_unfold:
  assumes "column1 class_prob = Inr col"
    and "take_rows test_ids (argsort (map (\<lambda>p. \<bar>p - 0.5\<bar>) col)) = Inr ids"
  shows "uncertainty_sampling argsort class_prob test_ids queryable_ids batch screen =
         (if ids = [] then Inl IndexError
          else if screen \<and> mask (argsort (map (\<lambda>p. \<bar>p - 0.5\<bar>) col))
                   (map (\<lambda>i. i \<in> set queryable_ids) ids) = [] then Inl IndexError
          else Inr (py_prefix batch (mask (argsort (map (\<lambda>p. \<bar>p - 0.5\<bar>) col))
                   (map (\<lambda>i. i \<in> set queryable_ids) ids))))"
  using assms by (simp add: uncertainty_sampling_def Let_def)

text \<open>
  On a pool of at least one row, each row with two columns and an id, the function
  returns the leading part of the sorted row indices whose id is queryable. With
  \<open>screen\<close> set this needs a queryable row.
\<close>

lemma uncertainty_sampling_result:
  assumes a: "is_argsort argsort"
    and ne: "class_prob \<noteq> []"
    and cols: "list_all (\<lambda>row. 1 < length row) class_prob"
    and len: "length class_prob \<le> length test_ids"
    and scr: "screen \<longrightarrow> (\<exists>i<length class_prob. test_ids ! i \<in> set queryable_ids)"
  shows "uncertainty_sampling argsort class_prob test_ids queryable_ids batch screen =
         Inr (py_prefix batch (filter (\<lambda>i. test_ids ! i \<in> set queryable_ids)
                (argsort (map (\<lambda>row. \<bar>row ! 1 - 0.5\<bar>) class_prob))))"
proof -
  define col where "col = map (\<lambda>row. row ! 1) class_prob"
  define dist where "dist = map (\<lambda>p. \<bar>p - 0.5\<bar>) col"
  define order where "order = argsort dist"
  define final where "final = filter (\<lambda>i. test_ids ! i \<in> set queryable_ids) order"
  have ldist: "length dist = length class_prob" by (simp add: dist_def col_def)
  have dist_alt: "dist = map (\<lambda>row. \<bar>row ! 1 - 0.5\<bar>) class_prob"
    by (simp add: dist_def col_def)
  have c: "column1 class_prob = Inr col"
    using cols by (simp add: column1_def col_def)
  have rows: "take_rows test_ids (argsort dist) = Inr (map (\<lambda>i. test_ids ! i) order)"
    unfolding order_def using take_rows_argsort [OF a, of dist test_ids] len ldist by simp
  have so: "set order = {0..<length class_prob}"
    unfolding order_def using is_argsort_set [OF a, of dist] ldist by simp
  have "length order = length class_prob"
    unfolding order_def using is_argsort_length [OF a, of dist] ldist by simp
  then have one: "order \<noteq> []" using ne by auto
  have fin: "mask order (map (\<lambda>i. i \<in> set queryable_ids) (map (\<lambda>i. test_ids ! i) order)) = final"
    by (simp add: final_def mask_map comp_def)
  have fne: "final \<noteq> []" if screen
  proof -
    from that scr obtain i where "i < length class_prob" "test_ids ! i \<in> set queryable_ids"
      by blast
    then have "i \<in> set final" using so by (simp add: final_def)
    then show ?thesis by auto
  qed
  have "uncertainty_sampling argsort class_prob test_ids queryable_ids batch screen =
         (if map (\<lambda>i. test_ids ! i) order = [] then Inl IndexError
          else if screen \<and> mask order
                   (map (\<lambda>i. i \<in> set queryable_ids) (map (\<lambda>i. test_ids ! i) order)) = []
          then Inl IndexError
          else Inr (py_prefix batch (mask order
                   (map (\<lambda>i. i \<in> set queryable_ids) (map (\<lambda>i. test_ids ! i) order)))))"
    using uncertainty_sampling_unfold [where argsort = argsort, OF c rows [unfolded dist_def]]
    unfolding order_def dist_def .
  then have "uncertainty_sampling argsort class_prob test_ids queryable_ids batch screen
             = Inr (py_prefix batch final)"
    unfolding fin using one fne by auto
  then show ?thesis
    unfolding final_def order_def dist_alt .
qed

text \<open>
  With \<open>screen\<close> set and no id of the pool queryable, every path ends in IndexError:
  a row without a second column, an index without an id, an empty pool, or the
  report's \<^verbatim>\<open>final_order[0]\<close>.
\<close>

lemma uncertainty_sampling_screen_empty:
  assumes "set test_ids \<inter> set queryable_ids = {}"
  shows "uncertainty_sampling argsort class_prob test_ids queryable_ids batch True
         = Inl IndexError"
proof -
  have "mask order (map (\<lambda>i. i \<in> set queryable_ids) (map (\<lambda>i. test_ids ! i) order)) = []"
    if "list_all (\<lambda>i. i < length test_ids) order" for order
  proof -
    have "test_ids ! i \<notin> set queryable_ids" if "i \<in> set order" for i
    proof -
      from that \<open>list_all (\<lambda>i. i < length test_ids) order\<close>
      have "i < length test_ids" by (simp add: list_all_iff)
      then have "test_ids ! i \<in> set test_ids" by (rule nth_mem)
      with assms show ?thesis by blast
    qed
    then show ?thesis by (simp add: mask_map comp_def)
  qed
  then show ?thesis
    by (auto simp: uncertainty_sampling_def take_rows_def column1_def Let_def
        split: sum.splits if_splits)
qed

lemma uncertainty_sampling_none_queryable:
  assumes "is_argsort argsort" and "class_prob \<noteq> []"
    and "list_all (\<lambda>row. 1 < length row) class_prob"
    and "length class_prob \<le> length test_ids"
    and "set test_ids \<inter> set queryable_ids = {}"
  shows "uncertainty_sampling argsort class_prob test_ids queryable_ids batch False = Inr []"
proof -
  have "filter (\<lambda>i. test_ids ! i \<in> set queryable_ids) order = []"
    if "set order = {0..<length class_prob}" for order
  proof -
    have "test_ids ! i \<notin> set queryable_ids" if "i \<in> set order" for i
    proof -
      from that \<open>set order = {0..<length class_prob}\<close> assms(4)
      have "i < length test_ids" by simp
      then have "test_ids ! i \<in> set test_ids" by (rule nth_mem)
      with assms(5) show ?thesis by blast
    qed
    then show ?thesis by simp
  qed
  from this [OF is_argsort_set [OF assms(1), of "map (\<lambda>row. \<bar>row ! 1 - 0.5\<bar>) class_prob",
        simplified]]
  show ?thesis
    using uncertainty_sampling_result [OF assms(1-4), of False queryable_ids batch]
    by (simp add: py_prefix_Nil)
qed

lemma uncertainty_sampling_batch_zero:
  assumes "is_argsort argsort" and "class_prob \<noteq> []"
    and "list_all (\<lambda>row. 1 < length row) class_prob"
    and "length class_prob \<le> length test_ids"
  shows "uncertainty_sampling argsort class_prob test_ids queryable_ids 0 False = Inr []"
  using uncertainty_sampling_result [OF assms, of False queryable_ids 0]
  by (simp add: py_prefix_zero)

lemma pool_example_order:
  assumes "is_argsort argsort"
  shows "argsort [2/5, 0, 1/10, 9/20] = [1, 2, 0, 3]"
proof -
  have "argsort [2/5, 0, 1/10, 9/20] = argsort_stable [2/5, 0, 1/10, 9/20]"
    by (rule is_argsort_distinct_unique [OF assms]) simp
  also have "\<dots> = [1, 2, 0, 3]"
    by (simp add: argsort_stable_def upt_rec)
  finally show ?thesis .
qed

lemma pool_example_result:
  assumes "is_argsort argsort"
  shows "uncertainty_sampling argsort pool_example [10, 20, 30, 40] [10, 30] 2 screen
         = Inr [2, 0]"
proof -
  have c: "column1 pool_example = Inr [0.1, 0.5, 0.4, 0.05]"
    by (simp add: column1_def pool_example_def)
  have d: "map (\<lambda>p. \<bar>p - 0.5\<bar>) [0.1, 0.5, 0.4, 0.05] = [2/5, 0, 1/10, 9/20 :: real]"
    by simp
  note o = pool_example_order [OF assms]
  have r: "take_rows [10, 20, 30, 40 :: int]
             (argsort (map (\<lambda>p. \<bar>p - 0.5\<bar>) [0.1, 0.5, 0.4, 0.05])) = Inr [20, 30, 10, 40]"
    unfolding d o by (simp add: take_rows_def)
  show ?thesis
    unfolding uncertainty_sampling_unfold [where argsort = argsort, OF c r] d o
    by (simp add: mask_def py_prefix_def)
qed

text \<open>
  C1. On the pool of the specification's example (probabilities .9/.1, .5/.5, .6/.4,
  .95/.05, ids 10, 20, 30, 40, queryable ids 10 and 30, batch 2) the function returns
  the ids 30 and 10. As stated this fails: the function returns row indices, as its
  docstring says, here 2 and 0. Amended: under every sort that meets the contract it
  returns the indices 2 and 0, in that order, and these are the rows of the ids 30
  and 10.
\<close>

theorem uncertainty_sampling_example_indices:
  assumes "is_argsort argsort"
  shows "uncertainty_sampling argsort pool_example [10, 20, 30, 40] [10, 30] 2 screen
           = Inr [2, 0]
         \<and> map (\<lambda>i. [10, 20, 30, 40 :: int] ! i) [2, 0] = [30, 10]"
  using pool_example_result [OF assms, of screen] by simp

theorem uncertainty_sampling_example_indices_witness:
  "is_argsort argsort_stable
   \<and> uncertainty_sampling argsort_stable pool_example [10, 20, 30, 40] [10, 30] 2 False
       = Inr [2, 0]
   \<and> map (\<lambda>i. [10, 20, 30, 40 :: int] ! i) [2, 0] = [30, 10]"
  using uncertainty_sampling_example_indices [OF is_argsort_stable, of False]
    is_argsort_stable by simp

theorem uncertainty_sampling_example_not_ids:
  "uncertainty_sampling argsort_stable pool_example [10, 20, 30, 40] [10, 30] 2 False
     \<noteq> Inr [30, 10]"
  using pool_example_result [OF is_argsort_stable, of False] by simp

text \<open>
  C10. With \<open>screen\<close> set and no id of the pool queryable, the function raises
  IndexError and returns no empty list; without \<open>screen\<close>, on a pool of at least one
  row, each row with two columns and an id, it returns the empty list.
\<close>

theorem uncertainty_sampling_screen_raises:
  assumes "set test_ids \<inter> set queryable_ids = {}"
  shows "uncertainty_sampling argsort class_prob test_ids queryable_ids batch True
           = Inl IndexError
         \<and> (is_argsort argsort \<and> class_prob \<noteq> []
              \<and> list_all (\<lambda>row. 1 < length row) class_prob
              \<and> length class_prob \<le> length test_ids
            \<longrightarrow> uncertainty_sampling argsort class_prob test_ids queryable_ids batch False
                  = Inr [])"
proof (intro conjI impI)
  show "uncertainty_sampling argsort class_prob test_ids queryable_ids batch True
          = Inl IndexError"
    by (rule uncertainty_sampling_screen_empty [OF assms])
next
  assume "is_argsort argsort \<and> class_prob \<noteq> []
            \<and> list_all (\<lambda>row. 1 < length row) class_prob
            \<and> length class_prob \<le> length test_ids"
  then show "uncertainty_sampling argsort class_prob test_ids queryable_ids batch False
               = Inr []"
    using uncertainty_sampling_none_queryable [of argsort class_prob test_ids queryable_ids]
      assms by simp
qed

theorem uncertainty_sampling_screen_raises_witness:
  "set [10, 20, 30, 40 :: int] \<inter> set [50, 60] = {}
   \<and> is_argsort argsort_stable \<and> pool_example \<noteq> []
   \<and> list_all (\<lambda>row. 1 < length row) pool_example
   \<and> length pool_example \<le> length [10, 20, 30, 40 :: int]
   \<and> uncertainty_sampling argsort_stable pool_example [10, 20, 30, 40] [50, 60] 2 True
       = Inl IndexError
   \<and> uncertainty_sampling argsort_stable pool_example [10, 20, 30, 40] [50, 60] 2 False
       = Inr []"
proof -
  have h1: "set [10, 20, 30, 40 :: int] \<inter> set [50, 60] = {}" by simp
  have h2: "pool_example \<noteq> []" by (simp add: pool_example_def)
  have h3: "list_all (\<lambda>row. 1 < length row) pool_example" by (simp add: pool_example_def)
  have h4: "length pool_example \<le> length [10, 20, 30, 40 :: int]"
    by (simp add: pool_example_def)
  from uncertainty_sampling_screen_raises [OF h1, of argsort_stable pool_example 2]
    is_argsort_stable h2 h3 h4
  have "uncertainty_sampling argsort_stable pool_example [10, 20, 30, 40] [50, 60] 2 True
          = Inl IndexError"
    and "uncertainty_sampling argsort_stable pool_example [10, 20, 30, 40] [50, 60] 2 False
          = Inr []"
    by simp_all
  with is_argsort_stable h1 h2 h3 h4 show ?thesis
    by (intro conjI)
qed

subsection \<open>random\_sampling\<close>

text \<open>
  C2. Two calls of \<^verbatim>\<open>random_sampling\<close> on the same arguments and seed both return,
  with the same output. The source does not return: whatever the generator gives,
  every call ends in an exception, NameError from the unbound name \<^verbatim>\<open>order\<close>
  unless the generator has raised before.
\<close>

theorem random_sampling_raises:
  "\<exists>e. random_sampling randint test_ids queryable_ids batch seed screen = Inl e"
  by (simp add: random_sampling_def split: sum.splits)

text \<open>
  C3. With batch 0, and with no id of the pool queryable, both strategies return the
  empty list. \<^verbatim>\<open>random_sampling\<close> raises on both inputs: on the pool of ids 10 and 20
  with batch 0, and on the same pool with the queryable id 30 and batch 1.
\<close>

theorem random_sampling_empty_cases_raise:
  "(\<exists>e. random_sampling randint [10, 20] [10] 0 42 False = Inl e)
   \<and> (\<exists>e. random_sampling randint [10, 20] [30] 1 42 False = Inl e)"
  by (simp add: random_sampling_def split: sum.splits)

section \<open>Properties of the feature extraction\<close>

subsection \<open>The loop of fit\_bazin\_all\<close>

lemma fit_bazin_loop_Cons:
  "fit_bazin_loop fit lc (b # bs) feats =
     (case band_slots fit lc b of
        Inl e \<Rightarrow> Inl e
      | Inr slots \<Rightarrow> fit_bazin_loop fit lc bs (feats @ slots))"
  by (simp add: band_slots_def split: sum.splits)

lemma fit_bazin_returns_five:
  assumes "fitter_ok fit"
    and "4 < length (filter (\<lambda>r. band r = b) (photometry lc))"
  shows "\<exists>ps. fit_bazin fit lc b = Inr ps \<and> length ps = 5"
proof -
  obtain r rs where "filter (\<lambda>r. band r = b) (photometry lc) = r # rs"
    using assms(2) by (cases "filter (\<lambda>r. band r = b) (photometry lc)") auto
  then show ?thesis
    using assms(1) by (simp add: fit_bazin_def fitter_ok_def)
qed

lemma band_slots_five:
  assumes "fitter_ok fit"
  shows "\<exists>slots. band_slots fit lc b = Inr slots \<and> length slots = 5"
proof (cases "4 < length (filter (\<lambda>r. band r = b) (photometry lc))")
  case True
  from fit_bazin_returns_five [OF assms True] obtain ps
    where "fit_bazin fit lc b = Inr ps" "length ps = 5" by blast
  with True show ?thesis by (simp add: band_slots_def)
next
  case False
  then show ?thesis by (simp add: band_slots_def)
qed

text \<open>
  The loop returns, its result extends the features it started from, and each band
  adds five slots.
\<close>

lemma fit_bazin_loop_returns:
  assumes "fitter_ok fit"
  shows "\<exists>feats'. fit_bazin_loop fit lc bs feats = Inr feats'
           \<and> length feats' = length feats + 5 * length bs
           \<and> take (length feats) feats' = feats"
proof (induction bs arbitrary: feats)
  case Nil
  show ?case by simp
next
  case (Cons b bs)
  from band_slots_five [OF assms] obtain slots
    where s: "band_slots fit lc b = Inr slots" "length slots = 5" by blast
  from Cons.IH [of "feats @ slots"] obtain feats'
    where f: "fit_bazin_loop fit lc bs (feats @ slots) = Inr feats'"
      "length feats' = length (feats @ slots) + 5 * length bs"
      "take (length (feats @ slots)) feats' = feats @ slots" by blast
  have "take (length feats) feats' = take (length feats) (take (length (feats @ slots)) feats')"
    by (simp add: min_def)
  also have "\<dots> = feats" unfolding f(3) by simp
  finally show ?case
    using s f by (simp add: fit_bazin_loop_Cons del: fit_bazin_loop.simps)
qed

text \<open>The five slots of the band at position \<open>k\<close> are what the pass for that band appends.\<close>

lemma fit_bazin_loop_block:
  assumes "fitter_ok fit"
    and "k < length bs"
    and "fit_bazin_loop fit lc bs feats = Inr feats'"
  shows "band_slots fit lc (bs ! k) = Inr (take 5 (drop (length feats + 5 * k) feats'))"
  using assms(2,3)
proof (induction bs arbitrary: feats k)
  case Nil
  then show ?case by simp
next
  case (Cons b bs)
  from band_slots_five [OF assms(1)] obtain slots
    where s: "band_slots fit lc b = Inr slots" "length slots = 5" by blast
  from Cons.prems(2) s
  have l: "fit_bazin_loop fit lc bs (feats @ slots) = Inr feats'"
    by (simp add: fit_bazin_loop_Cons del: fit_bazin_loop.simps)
  show ?case
  proof (cases k)
    case 0
    from fit_bazin_loop_returns [OF assms(1), of lc bs "feats @ slots"] l
    have "take (length (feats @ slots)) feats' = feats @ slots" by auto
    then have "drop (length feats) (take (length feats + 5) feats') = slots"
      using s(2) by simp
    then have "take 5 (drop (length feats) feats') = slots"
      by (simp add: drop_take)
    with 0 s show ?thesis by simp
  next
    case (Suc k')
    with Cons.prems(1) have "k' < length bs" by simp
    from Cons.IH [OF this l] Suc s(2) show ?thesis
      by (simp add: add.assoc add.commute add.left_commute)
  qed
qed

lemma fit_bazin_all_block:
  assumes "fitter_ok fit" and "k < length (filters lc)"
  shows "\<exists>feats. fit_bazin_all fit lc = Inr (lc\<lparr>bazin_features := feats\<rparr>)
           \<and> band_slots fit lc (filters lc ! k) = Inr (take 5 (drop (5 * k) feats))"
proof -
  from fit_bazin_loop_returns [OF assms(1), of lc "filters lc" "[]"] obtain feats
    where f: "fit_bazin_loop fit lc (filters lc) [] = Inr feats" by blast
  from fit_bazin_loop_block [OF assms f]
  have "band_slots fit lc (filters lc ! k) = Inr (take 5 (drop (5 * k) feats))" by simp
  moreover from f have "fit_bazin_all fit lc = Inr (lc\<lparr>bazin_features := feats\<rparr>)"
    by (simp add: fit_bazin_all_def)
  ultimately show ?thesis by blast
qed

subsection \<open>Concrete runs\<close>

lemma fitter_ok_const: "length ps = 5 \<Longrightarrow> fitter_ok (fit_const ps)"
  by (simp add: fitter_ok_def fit_const_def)

lemma lc_example_g:
  "filter (\<lambda>r. band r = ''g'') (photometry lc_example)
     = [obs 5 ''g'' 10, obs 3 ''g'' 12, obs 4 ''g'' 13, obs 6 ''g'' 15, obs 7 ''g'' 16]"
  by (simp add: lc_example_def obs_def)

lemma lc_example_r:
  "filter (\<lambda>r. band r = ''r'') (photometry lc_example) = [obs 1 ''r'' 11, obs 2 ''r'' 14]"
  by (simp add: lc_example_def obs_def)

lemma lc_example_filters: "filters lc_example = [''g'', ''r'']"
  by (simp add: lc_example_def)

lemma fit_bazin_const_g: "fit_bazin (fit_const ps) lc_example ''g'' = Inr ps"
  by (simp add: fit_bazin_def lc_example_g fit_const_def)

text \<open>
  C4. For every record the feature list that \<^verbatim>\<open>fit_bazin_all\<close> builds has five
  slots per declared filter, whether the band was fitted, failed or was skipped. The
  fitter is held to its contract: it returns, and it returns five values.
\<close>

theorem fit_bazin_all_length:
  assumes "fitter_ok fit_scipy"
  shows "\<exists>feats. fit_bazin_all fit_scipy lc = Inr (lc\<lparr>bazin_features := feats\<rparr>)
           \<and> length feats = 5 * length (filters lc)"
proof -
  from fit_bazin_loop_returns [OF assms, of lc "filters lc" "[]"] obtain feats
    where "fit_bazin_loop fit_scipy lc (filters lc) [] = Inr feats"
      and "length feats = 5 * length (filters lc)" by auto
  then have "fit_bazin_all fit_scipy lc = Inr (lc\<lparr>bazin_features := feats\<rparr>)
             \<and> length feats = 5 * length (filters lc)"
    by (simp add: fit_bazin_all_def)
  then show ?thesis by (rule exI)
qed

theorem fit_bazin_all_length_witness:
  "fitter_ok (fit_const [Finite 1, NaN, Finite 3, Finite 4, Finite 5])
   \<and> (\<exists>feats. fit_bazin_all (fit_const [Finite 1, NaN, Finite 3, Finite 4, Finite 5]) lc_example
                 = Inr (lc_example\<lparr>bazin_features := feats\<rparr>)
         \<and> length feats = 5 * length (filters lc_example))"
proof -
  have h: "fitter_ok (fit_const [Finite 1, NaN, Finite 3, Finite 4, Finite 5])"
    by (rule fitter_ok_const) simp
  from fit_bazin_all_length [OF h, of lc_example] h show ?thesis by (intro conjI)
qed

text \<open>
  C5. A band with at most four matching photometry rows is not fitted: its five slots
  hold the string \<^verbatim>\<open>'None'\<close>, and the loop goes on to the next band. The first
  conjunct holds for every fitter, also one that would raise; the second places the
  five slots in the feature list, the fitter held to its contract on the other bands.
\<close>

theorem fit_bazin_all_sparse_band:
  assumes "k < length (filters lc)"
    and "length (filter (\<lambda>r. band r = filters lc ! k) (photometry lc)) \<le> 4"
  shows "band_slots any_fit lc (filters lc ! k) = Inr (replicate 5 NoneStr)
         \<and> (fitter_ok fit_scipy \<longrightarrow>
              (\<exists>feats. fit_bazin_all fit_scipy lc = Inr (lc\<lparr>bazin_features := feats\<rparr>)
                 \<and> take 5 (drop (5 * k) feats) = replicate 5 NoneStr))"
proof (intro conjI impI)
  show "band_slots any_fit lc (filters lc ! k) = Inr (replicate 5 NoneStr)"
    using assms(2) by (simp add: band_slots_def)
next
  assume ok: "fitter_ok fit_scipy"
  from fit_bazin_all_block [OF ok assms(1)] obtain feats
    where f: "fit_bazin_all fit_scipy lc = Inr (lc\<lparr>bazin_features := feats\<rparr>)"
      and b: "band_slots fit_scipy lc (filters lc ! k) = Inr (take 5 (drop (5 * k) feats))"
    by blast
  from b assms(2) have "take 5 (drop (5 * k) feats) = replicate 5 NoneStr"
    by (simp add: band_slots_def)
  with f show "\<exists>feats. fit_bazin_all fit_scipy lc = Inr (lc\<lparr>bazin_features := feats\<rparr>)
                 \<and> take 5 (drop (5 * k) feats) = replicate 5 NoneStr"
    by blast
qed

theorem fit_bazin_all_sparse_band_witness:
  "1 < length (filters lc_example)
   \<and> length (filter (\<lambda>r. band r = filters lc_example ! 1) (photometry lc_example)) \<le> 4
   \<and> fitter_ok (fit_const [Finite 1, Finite 2, Finite 3, Finite 4, Finite 5])
   \<and> band_slots (\<lambda>time fl. Inl ValueError) lc_example (filters lc_example ! 1)
       = Inr (replicate 5 NoneStr)
   \<and> (\<exists>feats. fit_bazin_all (fit_const [Finite 1, Finite 2, Finite 3, Finite 4, Finite 5])
                 lc_example = Inr (lc_example\<lparr>bazin_features := feats\<rparr>)
         \<and> take 5 (drop (5 * 1) feats) = replicate 5 NoneStr)"
proof -
  have h1: "1 < length (filters lc_example)" by (simp add: lc_example_filters)
  have h2: "length (filter (\<lambda>r. band r = filters lc_example ! 1) (photometry lc_example)) \<le> 4"
    by (simp add: lc_example_filters lc_example_r)
  have h3: "fitter_ok (fit_const [Finite 1, Finite 2, Finite 3, Finite 4, Finite 5])"
    by (rule fitter_ok_const) simp
  from fit_bazin_all_sparse_band [OF h1 h2,
      of "\<lambda>time fl. Inl ValueError" "fit_const [Finite 1, Finite 2, Finite 3, Finite 4, Finite 5]"]
    h3
  have "band_slots (\<lambda>time fl. Inl ValueError) lc_example (filters lc_example ! 1)
          = Inr (replicate 5 NoneStr)"
    and "\<exists>feats. fit_bazin_all (fit_const [Finite 1, Finite 2, Finite 3, Finite 4, Finite 5])
                 lc_example = Inr (lc_example\<lparr>bazin_features := feats\<rparr>)
         \<and> take 5 (drop (5 * 1) feats) = replicate 5 NoneStr"
    by simp_all
  with h1 h2 h3 show ?thesis by (intro conjI)
qed

text \<open>
  C6. A fit with a non-finite value, NaN or an infinity, in any of its five
  parameters leaves all five slots of the band missing. As stated this fails: the
  source tests \<^verbatim>\<open>str(item) == 'nan'\<close>, which an infinity does not meet, and a fit
  holding an infinity and no NaN is appended as returned. Amended: a fit holding NaN
  among its values leaves the five slots of the band holding \<^verbatim>\<open>'None'\<close>, and a fit
  without NaN is appended value by value.
\<close>

theorem fit_bazin_all_nan_band:
  assumes "fitter_ok fit_scipy" and "k < length (filters lc)"
    and "4 < length (filter (\<lambda>r. band r = filters lc ! k) (photometry lc))"
    and "fit_bazin fit_scipy lc (filters lc ! k) = Inr best_fit"
  shows "\<exists>feats. fit_bazin_all fit_scipy lc = Inr (lc\<lparr>bazin_features := feats\<rparr>)
           \<and> take 5 (drop (5 * k) feats) =
               (if NaN \<in> set best_fit then replicate 5 NoneStr else map Num best_fit)"
proof -
  have n: "(length (filter (\<lambda>item. item = NaN) best_fit) = 0) = (NaN \<notin> set best_fit)"
    by (auto simp: filter_empty_conv)
  from fit_bazin_all_block [OF assms(1,2)] obtain feats
    where f: "fit_bazin_all fit_scipy lc = Inr (lc\<lparr>bazin_features := feats\<rparr>)"
      and b: "band_slots fit_scipy lc (filters lc ! k) = Inr (take 5 (drop (5 * k) feats))"
    by blast
  from b assms(3,4) n
  have "take 5 (drop (5 * k) feats) =
          (if NaN \<in> set best_fit then replicate 5 NoneStr else map Num best_fit)"
    by (simp add: band_slots_def split: if_splits)
  with f show ?thesis by blast
qed

theorem fit_bazin_all_nan_band_witness:
  "fitter_ok (fit_const [Finite 1, NaN, Finite 3, Finite 4, Finite 5])
   \<and> 0 < length (filters lc_example)
   \<and> 4 < length (filter (\<lambda>r. band r = filters lc_example ! 0) (photometry lc_example))
   \<and> fit_bazin (fit_const [Finite 1, NaN, Finite 3, Finite 4, Finite 5]) lc_example
        (filters lc_example ! 0) = Inr [Finite 1, NaN, Finite 3, Finite 4, Finite 5]
   \<and> (\<exists>feats. fit_bazin_all (fit_const [Finite 1, NaN, Finite 3, Finite 4, Finite 5])
                 lc_example = Inr (lc_example\<lparr>bazin_features := feats\<rparr>)
         \<and> take 5 (drop (5 * 0) feats) = replicate 5 NoneStr)"
proof -
  have h1: "fitter_ok (fit_const [Finite 1, NaN, Finite 3, Finite 4, Finite 5])"
    by (rule fitter_ok_const) simp
  have h2: "0 < length (filters lc_example)" by (simp add: lc_example_filters)
  have h3: "4 < length (filter (\<lambda>r. band r = filters lc_example ! 0) (photometry lc_example))"
    by (simp add: lc_example_filters lc_example_g)
  have h4: "fit_bazin (fit_const [Finite 1, NaN, Finite 3, Finite 4, Finite 5]) lc_example
        (filters lc_example ! 0) = Inr [Finite 1, NaN, Finite 3, Finite 4, Finite 5]"
    by (simp add: lc_example_filters fit_bazin_const_g)
  from fit_bazin_all_nan_band [OF h1 h2 h3 h4]
  have "\<exists>feats. fit_bazin_all (fit_const [Finite 1, NaN, Finite 3, Finite 4, Finite 5])
                 lc_example = Inr (lc_example\<lparr>bazin_features := feats\<rparr>)
         \<and> take 5 (drop (5 * 0) feats) = replicate 5 NoneStr"
    by simp
  with h1 h2 h3 h4 show ?thesis by (intro conjI)
qed

theorem fit_bazin_all_keeps_infinity:
  "fit_bazin_all (fit_const [Finite 1, PosInf, Finite 3, Finite 4, Finite 5]) lc_example
     = Inr (lc_example\<lparr>bazin_features :=
              [Num (Finite 1), Num PosInf, Num (Finite 3), Num (Finite 4), Num (Finite 5),
               NoneStr, NoneStr, NoneStr, NoneStr, NoneStr]\<rparr>)"
  by (simp add: fit_bazin_all_def lc_example_filters lc_example_g lc_example_r
      fit_bazin_const_g numeral_eq_Suc)

text \<open>
  C9. Before the fitter is called the times of the band are shifted so that the
  earliest is at 0: the fitter receives the times less their minimum, none of them
  negative. As stated this fails: the source subtracts \<^verbatim>\<open>time[0]\<close>, the time of the
  first matching row, and on rows that are not in time order the fitter receives
  negative times. Amended: the fitter receives the times of the band less the time
  of its first row; when the rows of the band are in ascending time order this is
  their minimum and no shifted time is negative.
\<close>

theorem fit_bazin_shift_first:
  assumes "filter (\<lambda>x. band x = b) (photometry lc) = r # rs"
  shows "fit_bazin fit_scipy lc b
           = fit_scipy (map (\<lambda>x. mjd x - mjd r) (r # rs)) (map flux (r # rs))
         \<and> (sorted (map mjd (r # rs)) \<longrightarrow>
              mjd r = Min (set (map mjd (r # rs)))
              \<and> list_all (\<lambda>t. 0 \<le> t) (map (\<lambda>x. mjd x - mjd r) (r # rs)))"
proof (intro conjI impI)
  show "fit_bazin fit_scipy lc b
          = fit_scipy (map (\<lambda>x. mjd x - mjd r) (r # rs)) (map flux (r # rs))"
    using assms by (simp add: fit_bazin_def comp_def)
next
  assume s: "sorted (map mjd (r # rs))"
  then have le: "mjd r \<le> mjd x" if "x \<in> set rs" for x
    using that by auto
  show "mjd r = Min (set (map mjd (r # rs)))"
  proof (rule sym, rule Min_eqI)
    show "finite (set (map mjd (r # rs)))" by simp
    show "mjd r \<le> y" if "y \<in> set (map mjd (r # rs))" for y
      using that le by auto
    show "mjd r \<in> set (map mjd (r # rs))" by simp
  qed
next
  assume s: "sorted (map mjd (r # rs))"
  then have le: "mjd r \<le> mjd x" if "x \<in> set rs" for x
    using that by auto
  then show "list_all (\<lambda>t. 0 \<le> t) (map (\<lambda>x. mjd x - mjd r) (r # rs))"
    by (simp add: list_all_iff)
qed

theorem fit_bazin_shift_first_witness:
  "filter (\<lambda>x. band x = ''r'') (photometry lc_example) = obs 1 ''r'' 11 # [obs 2 ''r'' 14]
   \<and> sorted (map mjd (obs 1 ''r'' 11 # [obs 2 ''r'' 14]))
   \<and> fit_bazin fit_echo lc_example ''r'' = Inr [Finite 0, Finite 1]
   \<and> mjd (obs 1 ''r'' 11) = Min (set (map mjd (obs 1 ''r'' 11 # [obs 2 ''r'' 14])))
   \<and> list_all (\<lambda>t. 0 \<le> t)
       (map (\<lambda>x. mjd x - mjd (obs 1 ''r'' 11)) (obs 1 ''r'' 11 # [obs 2 ''r'' 14]))"
proof -
  have h1: "filter (\<lambda>x. band x = ''r'') (photometry lc_example)
              = obs 1 ''r'' 11 # [obs 2 ''r'' 14]"
    by (simp add: lc_example_r)
  have h2: "sorted (map mjd (obs 1 ''r'' 11 # [obs 2 ''r'' 14]))"
    by (simp add: obs_def)
  note t = fit_bazin_shift_first [OF h1, of fit_echo]
  from t have "fit_bazin fit_echo lc_example ''r'' = Inr [Finite 0, Finite 1]"
    by (simp add: fit_echo_def obs_def)
  moreover from t h2
  have "mjd (obs 1 ''r'' 11) = Min (set (map mjd (obs 1 ''r'' 11 # [obs 2 ''r'' 14])))"
    and "list_all (\<lambda>t. 0 \<le> t)
       (map (\<lambda>x. mjd x - mjd (obs 1 ''r'' 11)) (obs 1 ''r'' 11 # [obs 2 ''r'' 14]))"
    by blast+
  ultimately show ?thesis using h1 h2 by (intro conjI)
qed

theorem fit_bazin_shift_not_minimum:
  "fit_bazin fit_echo lc_example ''g''
     = Inr [Finite 0, Finite (- 2), Finite (- 1), Finite 1, Finite 2]"
  by (simp add: fit_bazin_def lc_example_g fit_echo_def obs_def)

section \<open>Properties of the loader\<close>

lemma snii_not_snibc: "code \<in> set snii \<Longrightarrow> code \<notin> set snibc"
  by (auto simp: snii_def snibc_def)

lemma zero_not_listed: "''0'' \<notin> set snii \<and> ''0'' \<notin> set snibc"
  by (simp add: snii_def snibc_def)

lemma header_line_code:
  "header_line py_int py_float (lc, raw, hdr) (''SIM_NON1a:'' # code # ws) =
     (case sntype_of code of
        Inl e \<Rightarrow> Inl e
      | Inr t \<Rightarrow> Inr (lc\<lparr>sncode := code, sntype := t\<rparr>, raw, hdr))"
  by simp

text \<open>A line on which every pass raises makes the loop raise, there or before.\<close>

lemma header_loop_raises:
  assumes "line \<in> set ls"
    and "\<And>st. \<exists>e. header_line py_int py_float st line = Inl e"
  shows "\<exists>e. header_loop py_int py_float st ls = Inl e"
  using assms(1)
proof (induction ls arbitrary: st)
  case Nil
  then show ?case by simp
next
  case (Cons l ls)
  show ?case
  proof (cases "header_line py_int py_float st l")
    case (Inl e)
    then show ?thesis by simp
  next
    case (Inr st')
    with Cons.prems assms(2) [of st] have "line \<in> set ls" by auto
    from Cons.IH [OF this, of st'] Inr show ?thesis by simp
  qed
qed

lemma unknown_code_line_raises:
  assumes "code \<notin> set snibc" and "code \<notin> set snii" and "code \<noteq> ''0''"
  shows "\<exists>e. header_line py_int py_float st (''SIM_NON1a:'' # code # ws) = Inl e"
proof -
  obtain lc raw hdr where "st = (lc, raw, hdr)" by (cases st) auto
  with assms show ?thesis
    by (simp add: header_line_code sntype_of_def del: header_line.simps)
qed

text \<open>
  C8. On a \<^verbatim>\<open>SIM_NON1a:\<close> line a code of the Ibc list gives the type Ibc, a code of
  the II list the type II, and the code \<^verbatim>\<open>0\<close> the type Ia. Any other code raises
  ValueError on that line and assigns no type, and loading a file that holds such a
  line raises. Codes are compared as the words of the file.
\<close>

theorem load_snpcc_lc_labels:
  "(code \<in> set snibc \<longrightarrow>
      header_line py_int py_float (lc, raw, hdr) (''SIM_NON1a:'' # code # ws)
        = Inr (lc\<lparr>sncode := code, sntype := ''Ibc''\<rparr>, raw, hdr))
   \<and> (code \<in> set snii \<longrightarrow>
      header_line py_int py_float (lc, raw, hdr) (''SIM_NON1a:'' # code # ws)
        = Inr (lc\<lparr>sncode := code, sntype := ''II''\<rparr>, raw, hdr))
   \<and> (code = ''0'' \<longrightarrow>
      header_line py_int py_float (lc, raw, hdr) (''SIM_NON1a:'' # code # ws)
        = Inr (lc\<lparr>sncode := code, sntype := ''Ia''\<rparr>, raw, hdr))
   \<and> (code \<notin> set snibc \<and> code \<notin> set snii \<and> code \<noteq> ''0'' \<longrightarrow>
      header_line py_int py_float (lc, raw, hdr) (''SIM_NON1a:'' # code # ws)
        = Inl ValueError
      \<and> ((''SIM_NON1a:'' # code # ws) \<in> set data_all \<longrightarrow>
           (\<exists>e. load_snpcc_lc py_int py_float lc0 data_all = Inl e)))"
proof (intro conjI impI)
  assume "code \<in> set snibc"
  then show "header_line py_int py_float (lc, raw, hdr) (''SIM_NON1a:'' # code # ws)
        = Inr (lc\<lparr>sncode := code, sntype := ''Ibc''\<rparr>, raw, hdr)"
    by (simp add: header_line_code sntype_of_def del: header_line.simps)
next
  assume "code \<in> set snii"
  then show "header_line py_int py_float (lc, raw, hdr) (''SIM_NON1a:'' # code # ws)
        = Inr (lc\<lparr>sncode := code, sntype := ''II''\<rparr>, raw, hdr)"
    using snii_not_snibc [of code]
    by (simp add: header_line_code sntype_of_def del: header_line.simps)
next
  assume "code = ''0''"
  then show "header_line py_int py_float (lc, raw, hdr) (''SIM_NON1a:'' # code # ws)
        = Inr (lc\<lparr>sncode := code, sntype := ''Ia''\<rparr>, raw, hdr)"
    using zero_not_listed
    by (simp add: header_line_code sntype_of_def del: header_line.simps)
next
  assume "code \<notin> set snibc \<and> code \<notin> set snii \<and> code \<noteq> ''0''"
  then show "header_line py_int py_float (lc, raw, hdr) (''SIM_NON1a:'' # code # ws)
        = Inl ValueError"
    by (simp add: header_line_code sntype_of_def del: header_line.simps)
next
  assume u: "code \<notin> set snibc \<and> code \<notin> set snii \<and> code \<noteq> ''0''"
    and m: "(''SIM_NON1a:'' # code # ws) \<in> set data_all"
  from m have "(''SIM_NON1a:'' # code # ws) \<in> set (filter (\<lambda>line. 1 < length line) data_all)"
    by simp
  moreover from u
  have "\<exists>e. header_line py_int py_float st (''SIM_NON1a:'' # code # ws) = Inl e" for st
    by (intro unknown_code_line_raises) simp_all
  ultimately show "\<exists>e. load_snpcc_lc py_int py_float lc0 data_all = Inl e"
    unfolding load_snpcc_lc_def by (rule header_loop_raises)
qed

theorem load_snpcc_lc_labels_witness:
  "''5'' \<in> set snibc
   \<and> header_line (\<lambda>w. Some 7) (\<lambda>w. Some (Finite 0)) (lc_example, [], [])
        [''SIM_NON1a:'', ''5'']
       = Inr (lc_example\<lparr>sncode := ''5'', sntype := ''Ibc''\<rparr>, [], [])
   \<and> ''2'' \<in> set snii
   \<and> header_line (\<lambda>w. Some 7) (\<lambda>w. Some (Finite 0)) (lc_example, [], [])
        [''SIM_NON1a:'', ''2'']
       = Inr (lc_example\<lparr>sncode := ''2'', sntype := ''II''\<rparr>, [], [])
   \<and> header_line (\<lambda>w. Some 7) (\<lambda>w. Some (Finite 0)) (lc_example, [], [])
        [''SIM_NON1a:'', ''0'']
       = Inr (lc_example\<lparr>sncode := ''0'', sntype := ''Ia''\<rparr>, [], [])
   \<and> ''99'' \<notin> set snibc \<and> ''99'' \<notin> set snii \<and> ''99'' \<noteq> ''0''
   \<and> header_line (\<lambda>w. Some 7) (\<lambda>w. Some (Finite 0)) (lc_example, [], [])
        [''SIM_NON1a:'', ''99''] = Inl ValueError
   \<and> [''SIM_NON1a:'', ''99''] \<in> set [[''SNID:'', ''7''], [''SIM_NON1a:'', ''99''], [''END:'']]
   \<and> (\<exists>e. load_snpcc_lc (\<lambda>w. Some 7) (\<lambda>w. Some (Finite 0)) lc_example
             [[''SNID:'', ''7''], [''SIM_NON1a:'', ''99''], [''END:'']] = Inl e)"
proof -
  have a: "''5'' \<in> set snibc" by (simp add: snibc_def)
  have b: "''2'' \<in> set snii" by (simp add: snii_def)
  have c: "''99'' \<notin> set snibc \<and> ''99'' \<notin> set snii \<and> ''99'' \<noteq> ''0''"
    by (simp add: snibc_def snii_def)
  have d: "[''SIM_NON1a:'', ''99'']
             \<in> set [[''SNID:'', ''7''], [''SIM_NON1a:'', ''99''], [''END:'']]"
    by simp
  from a load_snpcc_lc_labels [of "''5''" "\<lambda>w. Some 7" "\<lambda>w. Some (Finite 0)" lc_example "[]" "[]" "[]"]
  have 1: "header_line (\<lambda>w. Some 7) (\<lambda>w. Some (Finite 0)) (lc_example, [], [])
        [''SIM_NON1a:'', ''5'']
       = Inr (lc_example\<lparr>sncode := ''5'', sntype := ''Ibc''\<rparr>, [], [])"
    by blast
  from b load_snpcc_lc_labels [of "''2''" "\<lambda>w. Some 7" "\<lambda>w. Some (Finite 0)" lc_example "[]" "[]" "[]"]
  have 2: "header_line (\<lambda>w. Some 7) (\<lambda>w. Some (Finite 0)) (lc_example, [], [])
        [''SIM_NON1a:'', ''2'']
       = Inr (lc_example\<lparr>sncode := ''2'', sntype := ''II''\<rparr>, [], [])"
    by blast
  from load_snpcc_lc_labels [of "''0''" "\<lambda>w. Some 7" "\<lambda>w. Some (Finite 0)" lc_example "[]" "[]" "[]"]
  have 3: "header_line (\<lambda>w. Some 7) (\<lambda>w. Some (Finite 0)) (lc_example, [], [])
        [''SIM_NON1a:'', ''0'']
       = Inr (lc_example\<lparr>sncode := ''0'', sntype := ''Ia''\<rparr>, [], [])"
    by blast
  note t = load_snpcc_lc_labels [of "''99''" "\<lambda>w. Some 7" "\<lambda>w. Some (Finite 0)" lc_example
      "[]" "[]" "[]" "[[''SNID:'', ''7''], [''SIM_NON1a:'', ''99''], [''END:'']]" lc_example]
  from c t
  have 4: "header_line (\<lambda>w. Some 7) (\<lambda>w. Some (Finite 0)) (lc_example, [], [])
        [''SIM_NON1a:'', ''99''] = Inl ValueError"
    by blast
  from c d t
  have 5: "\<exists>e. load_snpcc_lc (\<lambda>w. Some 7) (\<lambda>w. Some (Finite 0)) lc_example
             [[''SNID:'', ''7''], [''SIM_NON1a:'', ''99''], [''END:'']] = Inl e"
    by blast
  from a b c d 1 2 3 4 5 show ?thesis by (intro conjI) simp_all
qed

end
